theory Spec2Isabelle
  imports Main "HOL-Library.Word"
begin

unbundle bit_operations_syntax

section \<open>Types and constants of the tracker application\<close>

text \<open>
  The model follows \<open>app.cpp\<close> (the event handlers) and \<open>gnss.cpp\<close> (the location
  acquisition). Machine integers of a fixed width are words. \<open>time_t\<close> is a signed type
  that holds every difference of two 32-bit \<open>millis()\<close> values and every value derived from
  the 32-bit \<open>send_repeat_time\<close> without wrap-around, so it is modelled as \<open>int\<close>; the
  conversions from and to the 32-bit values are written out (\<open>uint\<close>, \<open>word_of_int\<close>).
\<close>

type_synonym byte = "8 word"
type_synonym time_t = int

text \<open>
  The event masks, the struct lengths and the struct layouts are declared in headers
  (\<open>app.h\<close>, the WisBlock API) that are not part of the sources at hand. They are
  parameters of the model. \<open>prec_bytes\<close> and \<open>short_bytes\<close> give the object
  representation of the two location structs, which \<open>memcpy\<close> reads.
\<close>

record tracker_data_short_s =
  s_lat_1 :: byte
  s_lat_2 :: byte
  s_lat_3 :: byte
  s_long_1 :: byte
  s_long_2 :: byte
  s_long_3 :: byte
  s_alt_1 :: byte
  s_alt_2 :: byte
  s_alt_3 :: byte

record tracker_data_prec_s =
  l_lat_1 :: byte
  l_lat_2 :: byte
  l_lat_3 :: byte
  l_lat_4 :: byte
  l_long_1 :: byte
  l_long_2 :: byte
  l_long_3 :: byte
  l_long_4 :: byte
  l_alt_1 :: byte
  l_alt_2 :: byte
  l_alt_3 :: byte

record app_consts =
  STATUS :: "16 word"
  N_STATUS :: "16 word"
  ACC_TRIGGER :: "16 word"
  N_ACC_TRIGGER :: "16 word"
  GNSS_FIN :: "16 word"
  N_GNSS_FIN :: "16 word"
  LORA_TX_FIN :: "16 word"
  N_LORA_TX_FIN :: "16 word"
  TRACKER_DATA_PREC_LEN :: nat
  TRACKER_DATA_SHORT_LEN :: nat
  ENVIRONMENT_DATA_LEN :: nat
  NO_GNSS_INIT :: byte
  BATT_1_OFS :: nat
  BATT_2_OFS :: nat
  prec_bytes :: "tracker_data_prec_s \<Rightarrow> byte list"
  short_bytes :: "tracker_data_short_s \<Rightarrow> byte list"

datatype lmh_error_status = LMH_SUCCESS | LMH_BUSY | LMH_ERROR

text \<open>
  A software timer: its period in milliseconds, whether it reloads, whether it is
  running, and the operations the application has invoked on it, oldest first.
\<close>

datatype timer_op = TmrStop | TmrSetPeriod "32 word" | TmrStart | TmrReset

record SoftwareTimer =
  tmr_period :: "32 word"
  tmr_repeating :: bool
  tmr_active :: bool
  tmr_log :: "timer_op list"

definition tmr_begin :: "32 word \<Rightarrow> bool \<Rightarrow> SoftwareTimer" where
  "tmr_begin ms rep =
     \<lparr>tmr_period = ms, tmr_repeating = rep, tmr_active = False, tmr_log = []\<rparr>"

definition tmr_stop :: "SoftwareTimer \<Rightarrow> SoftwareTimer" where
  "tmr_stop t = t\<lparr>tmr_active := False, tmr_log := tmr_log t @ [TmrStop]\<rparr>"

definition tmr_setPeriod :: "32 word \<Rightarrow> SoftwareTimer \<Rightarrow> SoftwareTimer" where
  "tmr_setPeriod ms t = t\<lparr>tmr_period := ms, tmr_log := tmr_log t @ [TmrSetPeriod ms]\<rparr>"

definition tmr_start :: "SoftwareTimer \<Rightarrow> SoftwareTimer" where
  "tmr_start t = t\<lparr>tmr_active := True, tmr_log := tmr_log t @ [TmrStart]\<rparr>"

definition tmr_reset :: "SoftwareTimer \<Rightarrow> SoftwareTimer" where
  "tmr_reset t = t\<lparr>tmr_active := True, tmr_log := tmr_log t @ [TmrReset]\<rparr>"

text \<open>
  The calls to the collaborators (console, radio, sensors, the acquisition permit), in
  the order the handlers make them. \<open>AT_PRINTF\<close> lines are kept without their final
  newline; the \<open>MYLOG\<close> debug output is left out.
\<close>

datatype effect =
    AT_PRINTF string
  | SendLora "byte list"
  | SendP2P "byte list"
  | GnssSemGive
  | TaskSemGive
  | StartBme
  | ReadBme
  | ClearAccInt
  | RestartAdvertising nat

record app_state =
  g_task_event_type :: "16 word"
  last_pos_send :: time_t
  delayed_sending :: SoftwareTimer
  g_task_wakeup_timer :: SoftwareTimer
  delayed_active :: bool
  min_delay :: time_t
  send_fail :: byte
  low_batt_protection :: bool
  init_result :: bool
  g_gps_prec_6 :: bool
  packet_buff :: "byte list"
  packet_len :: byte
  has_env_sensor :: bool
  batt16 :: "16 word"
  g_env_data :: "byte list"
  g_tracker_data_s :: tracker_data_short_s
  g_tracker_data_l :: tracker_data_prec_s
  last_read_ok :: bool
  gnss_option :: byte
  g_enable_ble :: bool
  g_lpwan_has_joined :: bool
  send_repeat_time :: "32 word"
  lorawan_enable :: bool
  confirmed_msg_enabled :: bool
  lora_region :: byte
  data_rate :: byte
  trace :: "effect list"

definition emit :: "effect \<Rightarrow> app_state \<Rightarrow> app_state" where
  "emit e s = s\<lparr>trace := trace s @ [e]\<rparr>"

text \<open>
  What one run of \<open>app_event_handler\<close> reads from outside: the battery level as stored
  in \<open>batt_level.batt16\<close>, the clock at each \<open>millis()\<close> call that reaches the state, the
  result of each radio submission (numbered from 0 within a block), and what \<open>read_bme\<close>
  does to the environment record.
\<close>

record inputs =
  in_batt16 :: "16 word"
  in_status_lora :: lmh_error_status
  in_acc_check :: "32 word"
  in_acc_cond :: "32 word"
  in_acc_wait :: "32 word"
  in_acc_send :: "32 word"
  in_fin_millis :: "32 word"
  in_read_bme :: "byte list \<Rightarrow> byte list"
  in_fin_lora :: "nat \<Rightarrow> lmh_error_status"
  in_fin_p2p :: bool

section \<open>init\_app: the minimum delay and the deferred timer\<close>

text \<open>Lines 148 to 160 of \<open>init_app\<close>.\<close>

definition init_min_delay :: "32 word \<Rightarrow> time_t" where
  "init_min_delay rt = (if rt \<noteq> 0 then uint (rt div 2) else 30000)"

definition init_app_delay :: "app_state \<Rightarrow> app_state" where
  "init_app_delay s =
     (let s1 = s\<lparr>min_delay := init_min_delay (send_repeat_time s)\<rparr>
      in s1\<lparr>delayed_sending := tmr_begin (word_of_int (min_delay s1)) False\<rparr>)"

section \<open>The timer event\<close>

text \<open>Lines 250 to 266: the protection against battery drain.\<close>

definition battery_guard :: "app_state \<Rightarrow> app_state" where
  "battery_guard s =
     (if batt16 s < 290 then
        s\<lparr>low_batt_protection := True,
          g_task_wakeup_timer :=
            tmr_reset (tmr_setPeriod (1 * 60 * 60 * 1000) (g_task_wakeup_timer s))\<rparr>
      else if batt16 s > 410 \<and> low_batt_protection s then
        s\<lparr>low_batt_protection := False,
          g_task_wakeup_timer :=
            tmr_reset (tmr_setPeriod (send_repeat_time s) (g_task_wakeup_timer s))\<rparr>
      else s)"

text \<open>Lines 268 to 301: the battery-only packet.\<close>

definition status_send :: "app_consts \<Rightarrow> inputs \<Rightarrow> app_state \<Rightarrow> app_state" where
  "status_send c i s =
     (if low_batt_protection s \<or> gnss_option s = NO_GNSS_INIT c then
        (if lorawan_enable s then
           (let s1 = emit (SendLora (take 4 (g_env_data s))) s
            in case in_status_lora i of
                 LMH_SUCCESS \<Rightarrow> s1
               | LMH_BUSY \<Rightarrow> emit (AT_PRINTF ''+EVT:BUSY'') s1
               | LMH_ERROR \<Rightarrow> emit (AT_PRINTF ''+EVT:SIZE_ERROR'') s1)
         else emit (SendP2P (take 4 (g_env_data s))) s)
      else s)"

text \<open>Lines 216 to 243: the report of a failed start-up, the sensors are woken up.\<close>

definition status_wake :: "app_consts \<Rightarrow> app_state \<Rightarrow> app_state" where
  "status_wake c s =
     (let s2 = (if \<not> init_result s then emit (AT_PRINTF ''+EVT:HW_FAILURE'') s else s);
          s3 = (if g_enable_ble s2 then emit (RestartAdvertising 15) s2 else s2)
      in if \<not> low_batt_protection s3 then
           (let s3a = (if init_result s3 \<and> has_env_sensor s3
                       then emit StartBme s3 else s3)
            in if gnss_option s3a \<noteq> NO_GNSS_INIT c
               then emit GnssSemGive s3a else s3a)
         else s3)"

text \<open>Lines 245 to 248: the battery level, high byte first in the environment record.\<close>

definition status_batt :: "app_consts \<Rightarrow> inputs \<Rightarrow> app_state \<Rightarrow> app_state" where
  "status_batt c i s =
     (let s5 = s\<lparr>batt16 := in_batt16 i\<rparr>
      in s5\<lparr>g_env_data :=
              (g_env_data s5)[BATT_1_OFS c := ucast (drop_bit 8 (batt16 s5)),
                              BATT_2_OFS c := ucast (batt16 s5)]\<rparr>)"

text \<open>Lines 211 to 302: the whole block of the timer event, once its flag is seen.\<close>

definition status_body :: "app_consts \<Rightarrow> inputs \<Rightarrow> app_state \<Rightarrow> app_state" where
  "status_body c i s =
     status_send c i
       (battery_guard
          (status_batt c i
             (status_wake c (s\<lparr>g_task_event_type := g_task_event_type s AND N_STATUS c\<rparr>))))"

definition status_block :: "app_consts \<Rightarrow> inputs \<Rightarrow> app_state \<Rightarrow> app_state" where
  "status_block c i s =
     (if g_task_event_type s AND STATUS c = STATUS c then status_body c i s else s)"

section \<open>The motion trigger\<close>

text \<open>
  Lines 312 to 332. \<open>acc_send_now\<close> is the value of \<open>send_now\<close> after line 332, from
  the \<open>millis()\<close> value read at line 315. \<open>acc_wait_time\<close> is line 323: \<open>abs\<close> is
  applied to the 0-or-1 result of the comparison, and the two \<open>millis()\<close> calls of the
  conditional expression are its condition's and its branch's.
\<close>

definition acc_send_now :: "app_state \<Rightarrow> 32 word \<Rightarrow> bool" where
  "acc_send_now s t =
     (if send_repeat_time s \<noteq> 0 then
        (if uint t - last_pos_send s < min_delay s then False else True)
      else True)"

definition acc_wait_time :: "app_state \<Rightarrow> 32 word \<Rightarrow> 32 word \<Rightarrow> time_t" where
  "acc_wait_time s t_cond t_val =
     (if \<bar>of_bool (min_delay s - (uint t_cond - last_pos_send s) \<ge> 0) :: int\<bar> \<noteq> 0
      then min_delay s - (uint t_val - last_pos_send s)
      else min_delay s)"

definition acc_defer :: "inputs \<Rightarrow> app_state \<Rightarrow> app_state" where
  "acc_defer i s =
     (if send_repeat_time s \<noteq> 0 \<and> uint (in_acc_check i) - last_pos_send s < min_delay s
         \<and> \<not> delayed_active s then
        (let wait_time = acc_wait_time s (in_acc_cond i) (in_acc_wait i)
         in s\<lparr>delayed_sending :=
                 tmr_start (tmr_setPeriod (word_of_int wait_time)
                   (tmr_stop (delayed_sending s))),
               delayed_active := True\<rparr>)
      else s)"

definition acc_body :: "app_consts \<Rightarrow> inputs \<Rightarrow> app_state \<Rightarrow> app_state" where
  "acc_body c i s =
     (let s1 = emit ClearAccInt
                 (s\<lparr>g_task_event_type := g_task_event_type s AND N_ACC_TRIGGER c\<rparr>);
          send_now = acc_send_now s1 (in_acc_check i);
          s2 = acc_defer i s1;
          s3 = (if send_now then
                  s2\<lparr>last_pos_send := uint (in_acc_send i),
                     g_task_event_type := g_task_event_type s2 OR STATUS c\<rparr>
                else s2)
      in if send_repeat_time s3 \<noteq> 0
         then s3\<lparr>g_task_wakeup_timer := tmr_reset (g_task_wakeup_timer s3)\<rparr>
         else s3)"

definition acc_block :: "app_consts \<Rightarrow> inputs \<Rightarrow> app_state \<Rightarrow> app_state" where
  "acc_block c i s =
     (if g_task_event_type s AND ACC_TRIGGER c = ACC_TRIGGER c \<and> g_lpwan_has_joined s
      then acc_body c i s else s)"

section \<open>The end of a location search\<close>

text \<open>
  \<open>memcpy (&dst[off], src, n)\<close> on byte lists. The sources read here are at least
  \<open>n\<close> bytes long and the destination has room, see \<open>layout_ok\<close> below.
\<close>

definition memcpy_at :: "byte list \<Rightarrow> nat \<Rightarrow> byte list \<Rightarrow> nat \<Rightarrow> byte list" where
  "memcpy_at dst off src n = take off dst @ take n src @ drop (off + n) dst"

text \<open>Lines 362 to 406: the packet buffer and its length.\<close>

definition build_packet :: "app_consts \<Rightarrow> app_state \<Rightarrow> app_state" where
  "build_packet c s =
     (let z = replicate (TRACKER_DATA_PREC_LEN c + ENVIRONMENT_DATA_LEN c) (0 :: byte)
      in if last_read_ok s then
           (if g_gps_prec_6 s then
              (let b = memcpy_at z 0 (prec_bytes c (g_tracker_data_l s))
                         (TRACKER_DATA_PREC_LEN c)
               in if has_env_sensor s then
                    s\<lparr>packet_buff := memcpy_at b (TRACKER_DATA_PREC_LEN c) (g_env_data s)
                                       (ENVIRONMENT_DATA_LEN c),
                      packet_len :=
                        of_nat (TRACKER_DATA_PREC_LEN c + ENVIRONMENT_DATA_LEN c)\<rparr>
                  else
                    s\<lparr>packet_buff := memcpy_at b (TRACKER_DATA_PREC_LEN c) (g_env_data s) 4,
                      packet_len := of_nat (TRACKER_DATA_PREC_LEN c + 4)\<rparr>)
            else
              (let b = memcpy_at z 0 (short_bytes c (g_tracker_data_s s))
                         (TRACKER_DATA_SHORT_LEN c)
               in if has_env_sensor s then
                    s\<lparr>packet_buff := memcpy_at b (TRACKER_DATA_SHORT_LEN c) (g_env_data s)
                                       (ENVIRONMENT_DATA_LEN c),
                      packet_len :=
                        of_nat (TRACKER_DATA_SHORT_LEN c + ENVIRONMENT_DATA_LEN c)\<rparr>
                  else
                    s\<lparr>packet_buff := memcpy_at b (TRACKER_DATA_SHORT_LEN c) (g_env_data s) 4,
                      packet_len := of_nat (TRACKER_DATA_SHORT_LEN c + 4)\<rparr>))
         else
           (if has_env_sensor s then
              s\<lparr>packet_buff := memcpy_at z 0 (g_env_data s) (ENVIRONMENT_DATA_LEN c),
                packet_len := of_nat (ENVIRONMENT_DATA_LEN c)\<rparr>
            else
              s\<lparr>packet_buff := memcpy_at z 0 (g_env_data s) 4,
                packet_len := 4\<rparr>))"

text \<open>The bytes handed to the radio: the first \<open>packet_len\<close> bytes of the buffer.\<close>

definition frame :: "app_state \<Rightarrow> byte list" where
  "frame s = take (unat (packet_len s)) (packet_buff s)"

text \<open>
  Lines 430 to 459: the submission over LoRaWAN. \<open>r k\<close> is the result of the
  \<open>k\<close>-th call of \<open>send_lora_packet\<close>.
\<close>

definition send_lorawan :: "(nat \<Rightarrow> lmh_error_status) \<Rightarrow> app_state \<Rightarrow> app_state" where
  "send_lorawan r s =
     (let s1 = emit (SendLora (frame s)) s
      in case r 0 of
           LMH_SUCCESS \<Rightarrow> s1
         | LMH_BUSY \<Rightarrow> emit (AT_PRINTF ''+EVT:BUSY'') s1
         | LMH_ERROR \<Rightarrow>
             (let s2 = emit (SendLora (frame s1)) s1
              in case r 1 of
                   LMH_SUCCESS \<Rightarrow> s2
                 | LMH_BUSY \<Rightarrow> emit (AT_PRINTF ''+EVT:BUSY'') s2
                 | LMH_ERROR \<Rightarrow>
                     emit (AT_PRINTF ''+EVT:SIZE_ERROR'')
                       (emit (SendLora (frame s2))
                          (emit (AT_PRINTF ''+EVT:SIZE_ERROR RETRY'') s2))))"

text \<open>Lines 417 to 473: the check of region and data rate, then the submission.\<close>

definition fin_send :: "inputs \<Rightarrow> app_state \<Rightarrow> app_state" where
  "fin_send i s =
     (if lorawan_enable s then
        (if lora_region s = 8 \<and> data_rate s = 0
         then emit (AT_PRINTF ''+EVT:DR_ERROR'') s
         else send_lorawan (in_fin_lora i) s)
      else
        (let s1 = emit (SendP2P (frame s)) s
         in if in_fin_p2p i then s1 else emit (AT_PRINTF ''+EVT:SIZE_ERROR'') s1))"

text \<open>Lines 350 to 474.\<close>

definition fin_body :: "app_consts \<Rightarrow> inputs \<Rightarrow> app_state \<Rightarrow> app_state" where
  "fin_body c i s =
     (let s1 = s\<lparr>g_task_event_type := g_task_event_type s AND N_GNSS_FIN c\<rparr>;
          s2 = emit ReadBme (s1\<lparr>g_env_data := in_read_bme i (g_env_data s1)\<rparr>);
          s3 = s2\<lparr>last_pos_send := uint (in_fin_millis i), delayed_active := False\<rparr>
      in fin_send i (build_packet c s3))"

definition fin_block :: "app_consts \<Rightarrow> inputs \<Rightarrow> app_state \<Rightarrow> app_state" where
  "fin_block c i s =
     (if g_task_event_type s AND GNSS_FIN c = GNSS_FIN c then fin_body c i s else s)"

section \<open>The event handler and the deferred timer\<close>

definition app_event_handler :: "app_consts \<Rightarrow> inputs \<Rightarrow> app_state \<Rightarrow> app_state" where
  "app_event_handler c i s = fin_block c i (acc_block c i (status_block c i s))"

text \<open>Lines 621 to 625: the callback of the deferred timer.\<close>

definition send_delayed :: "app_consts \<Rightarrow> app_state \<Rightarrow> app_state" where
  "send_delayed c s =
     emit TaskSemGive (s\<lparr>g_task_event_type := g_task_event_type s OR STATUS c\<rparr>)"

text \<open>
  The expiry of the deferred timer, as the timer service of the operating system runs
  it: a running timer calls its callback, and one that does not reload is then at rest
  until it is started again. A timer at rest does not expire.
\<close>

definition delayed_expire :: "app_consts \<Rightarrow> app_state \<Rightarrow> app_state" where
  "delayed_expire c s =
     (if tmr_active (delayed_sending s) then
        send_delayed c
          (s\<lparr>delayed_sending :=
               (delayed_sending s)\<lparr>tmr_active := tmr_repeating (delayed_sending s)\<rparr>\<rparr>)
      else s)"

section \<open>The end of a transmission\<close>

text \<open>
  Lines 540 to 567 of \<open>lora_data_handler\<close>. \<open>sd_nvic_SystemReset\<close> does not return:
  the device restarts, and the handler has no state to go on with.
\<close>

datatype run = Continue app_state | SystemReset

definition tx_fin_body :: "app_consts \<Rightarrow> bool \<Rightarrow> app_state \<Rightarrow> run" where
  "tx_fin_body c g_rx_fin_result s =
     (let s1 = s\<lparr>g_task_event_type := g_task_event_type s AND N_LORA_TX_FIN c\<rparr>;
          s2 = (if confirmed_msg_enabled s1 \<and> lorawan_enable s1
                then emit (AT_PRINTF (''+EVT:SEND CONFIRMED '' @
                             (if g_rx_fin_result then ''SUCCESS'' else ''FAIL''))) s1
                else emit (AT_PRINTF ''+EVT:SEND OK'') s1)
      in if \<not> g_rx_fin_result then
           (let s3 = s2\<lparr>send_fail := send_fail s2 + 1\<rparr>
            in if send_fail s3 = 10 then SystemReset else Continue s3)
         else Continue s2)"

definition tx_fin_block :: "app_consts \<Rightarrow> bool \<Rightarrow> app_state \<Rightarrow> run" where
  "tx_fin_block c g_rx_fin_result s =
     (if g_task_event_type s AND LORA_TX_FIN c = LORA_TX_FIN c
      then tx_fin_body c g_rx_fin_result s else Continue s)"

text \<open>
  A sequence of transmissions that end, each with its acknowledgement: the radio sets
  the flag, the handler runs. The result is the position in the sequence of the event
  at which the device restarts, if it does.
\<close>

fun tx_events :: "app_consts \<Rightarrow> bool list \<Rightarrow> app_state \<Rightarrow> nat \<Rightarrow> nat option" where
  "tx_events c [] s k = None"
| "tx_events c (ack # acks) s k =
     (case tx_fin_block c ack
             (s\<lparr>g_task_event_type := g_task_event_type s OR LORA_TX_FIN c\<rparr>) of
        SystemReset \<Rightarrow> Some k
      | Continue s' \<Rightarrow> tx_events c acks s' (Suc k))"

section \<open>The location search\<close>

text \<open>Lines 191 to 204 of \<open>poll_gnss\<close>: the time limit of the search.\<close>

definition check_limit :: "32 word \<Rightarrow> time_t" where
  "check_limit rt =
     (if rt = 0 then 90000
      else if rt \<le> 90000 then uint (rt div 2)
      else 90000)"

text \<open>
  C's division of signed integers truncates towards zero. \<open>val8 k\<close> is byte \<open>k\<close> of
  the 32-bit member of \<open>pos_union\<close> on the little-endian target.
\<close>

definition c_div :: "int \<Rightarrow> int \<Rightarrow> int" where
  "c_div a b = sgn a * sgn b * (\<bar>a\<bar> div \<bar>b\<bar>)"

definition val8 :: "32 word \<Rightarrow> nat \<Rightarrow> byte" where
  "val8 v k = ucast (drop_bit (8 * k) v)"

text \<open>
  What the search loop of \<open>poll_gnss\<close> leaves at line 308: the flag \<open>last_read_ok\<close> and
  the locals \<open>latitude\<close>, \<open>longitude\<close> (64-bit signed) and \<open>altitude\<close> (32-bit signed).
\<close>

record acquisition =
  acq_ok :: bool
  acq_latitude :: int
  acq_longitude :: int
  acq_altitude :: int

definition zero_short :: tracker_data_short_s where
  "zero_short = \<lparr>s_lat_1 = 0, s_lat_2 = 0, s_lat_3 = 0, s_long_1 = 0, s_long_2 = 0,
     s_long_3 = 0, s_alt_1 = 0, s_alt_2 = 0, s_alt_3 = 0\<rparr>"

definition zero_prec :: tracker_data_prec_s where
  "zero_prec = \<lparr>l_lat_1 = 0, l_lat_2 = 0, l_lat_3 = 0, l_lat_4 = 0, l_long_1 = 0,
     l_long_2 = 0, l_long_3 = 0, l_long_4 = 0, l_alt_1 = 0, l_alt_2 = 0, l_alt_3 = 0\<rparr>"

definition encode_short :: "acquisition \<Rightarrow> tracker_data_short_s" where
  "encode_short a =
     (let la = word_of_int (c_div (acq_latitude a) 1000) :: 32 word;
          lo = word_of_int (c_div (acq_longitude a) 1000) :: 32 word;
          al = word_of_int (c_div (acq_altitude a) 10) :: 32 word
      in \<lparr>s_lat_1 = val8 la 2, s_lat_2 = val8 la 1, s_lat_3 = val8 la 0,
          s_long_1 = val8 lo 2, s_long_2 = val8 lo 1, s_long_3 = val8 lo 0,
          s_alt_1 = val8 al 2, s_alt_2 = val8 al 1, s_alt_3 = val8 al 0\<rparr>)"

definition encode_prec :: "acquisition \<Rightarrow> tracker_data_prec_s" where
  "encode_prec a =
     (let la = word_of_int (c_div (acq_latitude a) 10) :: 32 word;
          lo = word_of_int (c_div (acq_longitude a) 10) :: 32 word;
          al = word_of_int (c_div (acq_altitude a) 10) :: 32 word
      in \<lparr>l_lat_1 = val8 la 3, l_lat_2 = val8 la 2, l_lat_3 = val8 la 1, l_lat_4 = val8 la 0,
          l_long_1 = val8 lo 3, l_long_2 = val8 lo 2, l_long_3 = val8 lo 1,
          l_long_4 = val8 lo 0,
          l_alt_1 = val8 al 2, l_alt_2 = val8 al 1, l_alt_3 = val8 al 0\<rparr>)"

text \<open>
  Lines 308 to 435 of \<open>poll_gnss\<close>: the state it leaves and the value it returns.
  A search that ends with latitude and longitude both zero returns at line 313 and
  leaves the location structs as they were.
\<close>

definition poll_gnss_end :: "acquisition \<Rightarrow> app_state \<Rightarrow> app_state \<times> bool" where
  "poll_gnss_end a s =
     (let s0 = s\<lparr>last_read_ok := acq_ok a\<rparr>
      in if last_read_ok s0 then
           (if acq_latitude a = 0 \<and> acq_longitude a = 0
            then (s0\<lparr>last_read_ok := False\<rparr>, False)
            else (s0\<lparr>g_tracker_data_s := encode_short a,
                     g_tracker_data_l := encode_prec a\<rparr>, True))
         else (s0\<lparr>g_tracker_data_s := zero_short, g_tracker_data_l := zero_prec,
                  last_read_ok := False\<rparr>, False))"

text \<open>
  Lines 451 to 466 of \<open>gnss_task\<close>: one granted permit. The semaphore of the main
  task exists by then, so the end of the search is always signalled.
\<close>

definition gnss_task_step :: "app_consts \<Rightarrow> acquisition \<Rightarrow> app_state \<Rightarrow> app_state" where
  "gnss_task_step c a s =
     (let s1 = emit (AT_PRINTF ''+EVT:START_LOCATION'') s;
          (s2, got_location) = poll_gnss_end a s1;
          s3 = emit (AT_PRINTF (''+EVT:LOCATION '' @
                       (if got_location then ''FIX'' else ''NOFIX''))) s2
      in emit TaskSemGive (s3\<lparr>g_task_event_type := g_task_event_type s3 OR GNSS_FIN c\<rparr>))"

section \<open>Well-formed constants and states\<close>

text \<open>
  What the headers promise and the handlers rely on: each \<open>N_\<close> mask is the complement
  of its flag, the flags of the three application events do not overlap, the packet
  length fits its 8-bit variable, and the battery record is the first four bytes of the
  environment record.
\<close>

definition consts_ok :: "app_consts \<Rightarrow> bool" where
  "consts_ok c \<longleftrightarrow>
     N_STATUS c = NOT (STATUS c) \<and>
     N_ACC_TRIGGER c = NOT (ACC_TRIGGER c) \<and>
     N_GNSS_FIN c = NOT (GNSS_FIN c) \<and>
     N_LORA_TX_FIN c = NOT (LORA_TX_FIN c) \<and>
     ACC_TRIGGER c AND STATUS c = 0 \<and>
     ACC_TRIGGER c AND GNSS_FIN c = 0 \<and>
     STATUS c AND GNSS_FIN c = 0 \<and>
     0 < TRACKER_DATA_SHORT_LEN c \<and>
     TRACKER_DATA_SHORT_LEN c \<le> TRACKER_DATA_PREC_LEN c \<and>
     4 \<le> ENVIRONMENT_DATA_LEN c \<and>
     TRACKER_DATA_PREC_LEN c + ENVIRONMENT_DATA_LEN c < 256"

definition env_ok :: "app_consts \<Rightarrow> app_state \<Rightarrow> bool" where
  "env_ok c s \<longleftrightarrow> length (g_env_data s) = ENVIRONMENT_DATA_LEN c"

text \<open>
  Constants for concrete runs: the flags on bits 0, 15, 14 and 4, and the location
  structs laid out as two Cayenne LPP marker bytes followed by the fields that
  \<open>poll_gnss\<close> writes, which makes 11 and 13 bytes; an environment record of 19 bytes
  with the battery level in bytes 2 and 3.
\<close>

definition wisblock_consts :: app_consts where
  "wisblock_consts =
     \<lparr>STATUS = 0x0001, N_STATUS = 0xFFFE,
      ACC_TRIGGER = 0x8000, N_ACC_TRIGGER = 0x7FFF,
      GNSS_FIN = 0x4000, N_GNSS_FIN = 0xBFFF,
      LORA_TX_FIN = 0x0010, N_LORA_TX_FIN = 0xFFEF,
      TRACKER_DATA_PREC_LEN = 13, TRACKER_DATA_SHORT_LEN = 11,
      ENVIRONMENT_DATA_LEN = 19, NO_GNSS_INIT = 0,
      BATT_1_OFS = 2, BATT_2_OFS = 3,
      prec_bytes = (\<lambda>t. [0x01, 0x89, l_lat_1 t, l_lat_2 t, l_lat_3 t, l_lat_4 t,
                          l_long_1 t, l_long_2 t, l_long_3 t, l_long_4 t,
                          l_alt_1 t, l_alt_2 t, l_alt_3 t]),
      short_bytes = (\<lambda>t. [0x01, 0x88, s_lat_1 t, s_lat_2 t, s_lat_3 t,
                           s_long_1 t, s_long_2 t, s_long_3 t,
                           s_alt_1 t, s_alt_2 t, s_alt_3 t])\<rparr>"

text \<open>
  A state after start-up and join, before any event, with a send interval of one minute,
  no environment sensor and no location yet.
\<close>

definition boot_state :: app_state where
  "boot_state =
     \<lparr>g_task_event_type = 0, last_pos_send = 0,
      delayed_sending = tmr_begin 30000 False,
      g_task_wakeup_timer = tmr_begin 60000 True,
      delayed_active = False, min_delay = 30000, send_fail = 0,
      low_batt_protection = False, init_result = True, g_gps_prec_6 = True,
      packet_buff = replicate 32 0, packet_len = 0, has_env_sensor = False,
      batt16 = 0, g_env_data = replicate 19 0,
      g_tracker_data_s = zero_short, g_tracker_data_l = zero_prec,
      last_read_ok = False, gnss_option = 1, g_enable_ble = False,
      g_lpwan_has_joined = True, send_repeat_time = 60000, lorawan_enable = True,
      confirmed_msg_enabled = False, lora_region = 5, data_rate = 3, trace = []\<rparr>"

definition quiet_inputs :: inputs where
  "quiet_inputs =
     \<lparr>in_batt16 = 400, in_status_lora = LMH_SUCCESS,
      in_acc_check = 0, in_acc_cond = 0, in_acc_wait = 0, in_acc_send = 0,
      in_fin_millis = 0, in_read_bme = (\<lambda>e. e), in_fin_lora = (\<lambda>k. LMH_SUCCESS),
      in_fin_p2p = True\<rparr>"

section \<open>Sequences of events and readings of the trace\<close>

text \<open>
  A sequence of timer events: the timer sets the flag, the handler runs with the inputs
  of that run.
\<close>

fun timer_events :: "app_consts \<Rightarrow> inputs list \<Rightarrow> app_state \<Rightarrow> app_state" where
  "timer_events c [] s = s"
| "timer_events c (i # is) s =
     timer_events c is
       (app_event_handler c i (s\<lparr>g_task_event_type := g_task_event_type s OR STATUS c\<rparr>))"

text \<open>What a handler adds to the trace, and the radio submissions in it.\<close>

definition new_trace :: "app_state \<Rightarrow> app_state \<Rightarrow> effect list" where
  "new_trace s s' = drop (length (trace s)) (trace s')"

definition attempts :: "effect list \<Rightarrow> nat" where
  "attempts es = length (filter (\<lambda>e. case e of SendLora f \<Rightarrow> True | _ \<Rightarrow> False) es)"

text \<open>The number of failed transmissions in a row at the end of a sequence.\<close>

definition trailing_failures :: "bool list \<Rightarrow> nat" where
  "trailing_failures acks = length (takeWhile Not (rev acks))"

text \<open>
  Two radios for concrete runs: one that is always busy, and one that returns an error
  twice and then takes the frame.
\<close>

definition always_busy :: "nat \<Rightarrow> lmh_error_status" where
  "always_busy k = LMH_BUSY"

fun error_twice :: "nat \<Rightarrow> lmh_error_status" where
  "error_twice 0 = LMH_ERROR"
| "error_twice (Suc 0) = LMH_ERROR"
| "error_twice (Suc (Suc k)) = LMH_SUCCESS"

text \<open>A search that the driver reports as good, at latitude and longitude zero.\<close>

definition zero_acquisition :: acquisition where
  "zero_acquisition =
     \<lparr>acq_ok = True, acq_latitude = 0, acq_longitude = 0, acq_altitude = 35000\<rparr>"

text \<open>
  The start-up state with a motion trigger pending, and a run of the handler during
  which the clock goes from 29999 over 30000 to 30001 between its reads.
\<close>

definition motion_pending :: app_state where
  "motion_pending = boot_state\<lparr>g_task_event_type := 0x8000\<rparr>"

definition tick_inputs :: inputs where
  "tick_inputs =
     quiet_inputs\<lparr>in_acc_check := 29999, in_acc_cond := 30000, in_acc_wait := 30001\<rparr>"

section \<open>Auxiliary facts\<close>

subsection \<open>Words and lists\<close>

lemma or_and_self: "(x OR m) AND m = (m :: 'a :: len word)"
  by (simp add: bit_eq_iff bit_simps)

lemma keep_other_flag:
  fixes e :: "16 word"
  assumes "a AND f = 0" "e AND a = a"
  shows "(e AND NOT f) AND a = a"
proof -
  have "(e AND NOT f) AND a = (e AND a) AND NOT f"
    by (simp add: ac_simps)
  also have "\<dots> = a AND NOT f" using assms(2) by simp
  also have "\<dots> = a" using assms(1) by (auto simp: bit_eq_iff bit_simps)
  finally show ?thesis .
qed

lemma clear_other_flag:
  fixes e :: "16 word"
  assumes "a AND f = 0"
  shows "(e AND NOT a) AND f = f \<longleftrightarrow> e AND f = f"
proof -
  have "(e AND NOT a) AND f = e AND f"
    using assms by (auto simp: bit_eq_iff bit_simps)
  then show ?thesis by simp
qed

lemma uint_half: "uint ((rt :: 32 word) div 2) = uint rt div 2"
  by (simp add: uint_div)

lemma unat_len8: "n < 256 \<Longrightarrow> unat (of_nat n :: byte) = n"
  by (simp add: unat_of_nat)

lemma rep4: "replicate 4 x = [x, x, x, x]"
  by (simp add: eval_nat_numeral)

lemma wisblock_consts_ok: "consts_ok wisblock_consts"
  by (simp add: consts_ok_def wisblock_consts_def)

subsection \<open>What each step of the handlers leaves alone\<close>

lemma status_wake_same:
  "delayed_sending (status_wake c s) = delayed_sending s"
  "delayed_active (status_wake c s) = delayed_active s"
  "g_task_event_type (status_wake c s) = g_task_event_type s"
  "g_lpwan_has_joined (status_wake c s) = g_lpwan_has_joined s"
  "low_batt_protection (status_wake c s) = low_batt_protection s"
  "g_task_wakeup_timer (status_wake c s) = g_task_wakeup_timer s"
  "send_repeat_time (status_wake c s) = send_repeat_time s"
  "min_delay (status_wake c s) = min_delay s"
  by (simp_all add: status_wake_def emit_def Let_def)

lemma status_batt_same:
  "delayed_sending (status_batt c i s) = delayed_sending s"
  "delayed_active (status_batt c i s) = delayed_active s"
  "g_task_event_type (status_batt c i s) = g_task_event_type s"
  "g_lpwan_has_joined (status_batt c i s) = g_lpwan_has_joined s"
  "low_batt_protection (status_batt c i s) = low_batt_protection s"
  "g_task_wakeup_timer (status_batt c i s) = g_task_wakeup_timer s"
  "send_repeat_time (status_batt c i s) = send_repeat_time s"
  "min_delay (status_batt c i s) = min_delay s"
  "batt16 (status_batt c i s) = in_batt16 i"
  by (simp_all add: status_batt_def Let_def)

lemma battery_guard_same:
  "delayed_sending (battery_guard s) = delayed_sending s"
  "delayed_active (battery_guard s) = delayed_active s"
  "g_task_event_type (battery_guard s) = g_task_event_type s"
  "g_lpwan_has_joined (battery_guard s) = g_lpwan_has_joined s"
  "send_repeat_time (battery_guard s) = send_repeat_time s"
  "min_delay (battery_guard s) = min_delay s"
  by (simp_all add: battery_guard_def)

lemma status_send_same:
  "delayed_sending (status_send c i s) = delayed_sending s"
  "delayed_active (status_send c i s) = delayed_active s"
  "g_task_event_type (status_send c i s) = g_task_event_type s"
  "g_lpwan_has_joined (status_send c i s) = g_lpwan_has_joined s"
  "low_batt_protection (status_send c i s) = low_batt_protection s"
  "g_task_wakeup_timer (status_send c i s) = g_task_wakeup_timer s"
  "send_repeat_time (status_send c i s) = send_repeat_time s"
  "min_delay (status_send c i s) = min_delay s"
  by (simp_all add: status_send_def emit_def Let_def split: lmh_error_status.splits)

lemmas status_same = status_send_same battery_guard_same status_batt_same status_wake_same

lemma status_block_same:
  "delayed_sending (status_block c i s) = delayed_sending s"
  "delayed_active (status_block c i s) = delayed_active s"
  "g_lpwan_has_joined (status_block c i s) = g_lpwan_has_joined s"
  "send_repeat_time (status_block c i s) = send_repeat_time s"
  "min_delay (status_block c i s) = min_delay s"
  by (simp_all add: status_block_def status_body_def status_same)

lemma status_block_flags:
  "g_task_event_type (status_block c i s) =
     (if g_task_event_type s AND STATUS c = STATUS c
      then g_task_event_type s AND N_STATUS c else g_task_event_type s)"
  by (simp add: status_block_def status_body_def status_same)

lemma status_body_guard:
  "low_batt_protection (status_body c i s) =
     (if in_batt16 i < 290 then True
      else if in_batt16 i > 410 \<and> low_batt_protection s then False
      else low_batt_protection s)"
  "g_task_wakeup_timer (status_body c i s) =
     (if in_batt16 i < 290
      then tmr_reset (tmr_setPeriod 3600000 (g_task_wakeup_timer s))
      else if in_batt16 i > 410 \<and> low_batt_protection s
      then tmr_reset (tmr_setPeriod (send_repeat_time s) (g_task_wakeup_timer s))
      else g_task_wakeup_timer s)"
  by (simp_all add: status_body_def battery_guard_def status_same)

lemma build_packet_same:
  "delayed_sending (build_packet c s) = delayed_sending s"
  "g_task_event_type (build_packet c s) = g_task_event_type s"
  "low_batt_protection (build_packet c s) = low_batt_protection s"
  "send_repeat_time (build_packet c s) = send_repeat_time s"
  "min_delay (build_packet c s) = min_delay s"
  by (simp_all add: build_packet_def Let_def)

lemma send_lorawan_same:
  "delayed_sending (send_lorawan r s) = delayed_sending s"
  "g_task_event_type (send_lorawan r s) = g_task_event_type s"
  "low_batt_protection (send_lorawan r s) = low_batt_protection s"
  "send_repeat_time (send_lorawan r s) = send_repeat_time s"
  "min_delay (send_lorawan r s) = min_delay s"
  "packet_len (send_lorawan r s) = packet_len s"
  "packet_buff (send_lorawan r s) = packet_buff s"
  by (simp_all add: send_lorawan_def emit_def Let_def split: lmh_error_status.splits)

lemma fin_send_same:
  "delayed_sending (fin_send i s) = delayed_sending s"
  "g_task_event_type (fin_send i s) = g_task_event_type s"
  "low_batt_protection (fin_send i s) = low_batt_protection s"
  "send_repeat_time (fin_send i s) = send_repeat_time s"
  "min_delay (fin_send i s) = min_delay s"
  "packet_len (fin_send i s) = packet_len s"
  "packet_buff (fin_send i s) = packet_buff s"
  by (simp_all add: fin_send_def send_lorawan_same emit_def Let_def)

lemma fin_block_same:
  "delayed_sending (fin_block c i s) = delayed_sending s"
  "low_batt_protection (fin_block c i s) = low_batt_protection s"
  "send_repeat_time (fin_block c i s) = send_repeat_time s"
  "min_delay (fin_block c i s) = min_delay s"
  by (simp_all add: fin_block_def fin_body_def fin_send_same build_packet_same emit_def
      Let_def)

lemma fin_block_flags:
  "g_task_event_type (fin_block c i s) =
     (if g_task_event_type s AND GNSS_FIN c = GNSS_FIN c
      then g_task_event_type s AND N_GNSS_FIN c else g_task_event_type s)"
  by (simp add: fin_block_def fin_body_def fin_send_same build_packet_same emit_def Let_def)

lemma acc_body_fields:
  "last_pos_send (acc_body c i s) =
     (if acc_send_now s (in_acc_check i) then uint (in_acc_send i) else last_pos_send s)"
  "g_task_event_type (acc_body c i s) =
     (if acc_send_now s (in_acc_check i)
      then (g_task_event_type s AND N_ACC_TRIGGER c) OR STATUS c
      else g_task_event_type s AND N_ACC_TRIGGER c)"
  "delayed_sending (acc_body c i s) =
     (if \<not> acc_send_now s (in_acc_check i) \<and> \<not> delayed_active s
      then tmr_start (tmr_setPeriod
             (word_of_int (acc_wait_time s (in_acc_cond i) (in_acc_wait i)))
             (tmr_stop (delayed_sending s)))
      else delayed_sending s)"
  "delayed_active (acc_body c i s) =
     (delayed_active s \<or> \<not> acc_send_now s (in_acc_check i))"
  "low_batt_protection (acc_body c i s) = low_batt_protection s"
  "send_repeat_time (acc_body c i s) = send_repeat_time s"
  "min_delay (acc_body c i s) = min_delay s"
  by (simp_all add: acc_body_def acc_defer_def acc_send_now_def acc_wait_time_def
      emit_def Let_def)

lemma acc_block_same:
  "low_batt_protection (acc_block c i s) = low_batt_protection s"
  "send_repeat_time (acc_block c i s) = send_repeat_time s"
  "min_delay (acc_block c i s) = min_delay s"
  "tmr_repeating (delayed_sending (acc_block c i s)) = tmr_repeating (delayed_sending s)"
  by (simp_all add: acc_block_def acc_body_fields tmr_start_def tmr_setPeriod_def
      tmr_stop_def)

lemma acc_block_pending:
  "delayed_active s \<Longrightarrow> delayed_sending (acc_block c i s) = delayed_sending s"
  "delayed_active s \<Longrightarrow> delayed_active (acc_block c i s)"
  by (simp_all add: acc_block_def acc_body_fields)

text \<open>
  The handlers write neither the send interval nor the minimum delay: what
  \<open>init_app\<close> has set stays.
\<close>

lemma handler_keeps_min_delay:
  "min_delay (app_event_handler c i s) = min_delay s"
  "send_repeat_time (app_event_handler c i s) = send_repeat_time s"
  by (simp_all add: app_event_handler_def fin_block_same acc_block_same status_block_same)

lemma init_sets_min_delay:
  "min_delay (init_app_delay s) = init_min_delay (send_repeat_time (init_app_delay s))"
  by (simp add: init_app_delay_def Let_def)

subsection \<open>The frame without a location\<close>

lemma frame_no_fix:
  assumes "consts_ok c" "env_ok c s" "\<not> last_read_ok s"
  shows "frame (build_packet c s) =
           (if has_env_sensor s then g_env_data s else take 4 (g_env_data s))"
proof -
  from assms have e: "length (g_env_data s) = ENVIRONMENT_DATA_LEN c"
    and b: "ENVIRONMENT_DATA_LEN c < 256" "4 \<le> ENVIRONMENT_DATA_LEN c"
    by (simp_all add: consts_ok_def env_ok_def)
  show ?thesis
    using assms(3) e b
    by (simp add: build_packet_def frame_def memcpy_at_def Let_def unat_len8)
qed

lemma fin_body_frame:
  "frame (fin_body c i s) =
     frame (build_packet c (s\<lparr>g_env_data := in_read_bme i (g_env_data s)\<rparr>))"
  by (simp add: fin_body_def fin_send_same Let_def emit_def build_packet_def frame_def)

lemma fin_body_no_fix:
  assumes "consts_ok c" "length (in_read_bme i (g_env_data s)) = ENVIRONMENT_DATA_LEN c"
    "\<not> last_read_ok s"
  shows "frame (fin_body c i s) =
           (if has_env_sensor s then in_read_bme i (g_env_data s)
            else take 4 (in_read_bme i (g_env_data s)))"
proof -
  let ?s = "s\<lparr>g_env_data := in_read_bme i (g_env_data s)\<rparr>"
  have "env_ok c ?s" "\<not> last_read_ok ?s"
    using assms by (simp_all add: env_ok_def)
  from frame_no_fix [OF assms(1) this] show ?thesis
    by (simp add: fin_body_frame)
qed

section \<open>The frame after a search without a location\<close>

text \<open>
  C1, as it is stated, does not hold. Without an environment sensor and without a
  location the frame is not the zeroed position block followed by the battery block: in
  the start-up state, where the position block has 13 bytes (11 in the short format),
  the frame has 4 bytes, neither 17 nor 15.
\<close>

theorem no_fix_frame_counterexample:
  "\<not> last_read_ok boot_state \<and> \<not> has_env_sensor boot_state \<and>
   frame (fin_body wisblock_consts quiet_inputs boot_state) = [0, 0, 0, 0] \<and>
   length (frame (fin_body wisblock_consts quiet_inputs boot_state))
     \<noteq> TRACKER_DATA_PREC_LEN wisblock_consts + 4 \<and>
   length (frame (fin_body wisblock_consts quiet_inputs boot_state))
     \<noteq> TRACKER_DATA_SHORT_LEN wisblock_consts + 4"
proof -
  have "frame (fin_body wisblock_consts quiet_inputs boot_state) = [0, 0, 0, 0]"
    unfolding fin_body_frame
    by (simp add: build_packet_def frame_def memcpy_at_def boot_state_def
        wisblock_consts_def quiet_inputs_def Let_def rep4)
  then show ?thesis
    by (simp add: boot_state_def wisblock_consts_def)
qed

text \<open>
  C1, amended: at the end of a search that found no location, the frame leaves the
  position fields out, with and without an environment sensor. With a sensor it is the
  environment record as \<open>read_bme\<close> left it, without one it is the first four bytes of
  that record, the battery block, and has length 4.
\<close>

theorem no_fix_frame:
  assumes "consts_ok c" "length (in_read_bme i (g_env_data s)) = ENVIRONMENT_DATA_LEN c"
    "\<not> last_read_ok s"
  shows "frame (fin_body c i s) =
           (if has_env_sensor s then in_read_bme i (g_env_data s)
            else take 4 (in_read_bme i (g_env_data s)))
         \<and> length (frame (fin_body c i s)) =
           (if has_env_sensor s then ENVIRONMENT_DATA_LEN c else 4)"
proof -
  have "4 \<le> ENVIRONMENT_DATA_LEN c" using assms(1) by (simp add: consts_ok_def)
  then show ?thesis
    using fin_body_no_fix [OF assms] assms(2) by simp
qed

text \<open>C1, amended, in the start-up state with and without the sensor.\<close>

theorem no_fix_frame_witness:
  "frame (fin_body wisblock_consts quiet_inputs (boot_state\<lparr>has_env_sensor := True\<rparr>))
     = replicate 19 0
   \<and> length (frame (fin_body wisblock_consts quiet_inputs boot_state)) = 4"
  using no_fix_frame [of wisblock_consts quiet_inputs "boot_state\<lparr>has_env_sensor := True\<rparr>"]
    no_fix_frame [of wisblock_consts quiet_inputs boot_state] wisblock_consts_ok
  by (simp add: boot_state_def quiet_inputs_def wisblock_consts_def)


section \<open>The protection against battery drain\<close>

lemma handler_prot:
  "low_batt_protection (app_event_handler c i s) = low_batt_protection (status_block c i s)"
  by (simp add: app_event_handler_def fin_block_same acc_block_same)

lemma handler_prot_pending:
  assumes "g_task_event_type s AND STATUS c = STATUS c"
  shows "low_batt_protection (app_event_handler c i s) =
     (if in_batt16 i < 290 then True
      else if in_batt16 i > 410 \<and> low_batt_protection s then False
      else low_batt_protection s)"
  using assms by (simp add: handler_prot status_block_def status_body_guard)

lemma sticky_run:
  "low_batt_protection s \<Longrightarrow> \<forall>i \<in> set is. 290 \<le> in_batt16 i \<and> in_batt16 i \<le> 410
   \<Longrightarrow> low_batt_protection (timer_events c is s)"
proof (induction "is" arbitrary: s)
  case Nil
  then show ?case by simp
next
  case (Cons i "is")
  let ?s = "s\<lparr>g_task_event_type := g_task_event_type s OR STATUS c\<rparr>"
  have "g_task_event_type ?s AND STATUS c = STATUS c" by (simp add: or_and_self)
  from handler_prot_pending [OF this, of i] Cons.prems
  have "low_batt_protection (app_event_handler c i ?s)"
    by (auto simp: not_less [symmetric])
  with Cons show ?case by simp
qed

text \<open>
  C2: the flag of the low-battery protection follows a hysteresis with two thresholds.
  At a timer event with battery reading \<open>r\<close> (millivolts divided by 10): the
  protection becomes active only if \<open>r < 290\<close>; a reading below 290 activates it, sets
  the wake-up timer to one hour (3600000 ms) and resets the timer; while protected, a
  reading in [290, 410] keeps it active and leaves the timer alone; it becomes inactive
  only if \<open>r > 410\<close>; while protected, a reading above 410 ends it, sets the timer back
  to \<open>send_repeat_time\<close> and resets it; and through any sequence of timer events whose
  readings all lie in [290, 410] an active protection stays active.
\<close>

theorem battery_hysteresis:
  assumes "g_task_event_type s AND STATUS c = STATUS c"
  shows "(low_batt_protection (app_event_handler c i s) \<and> \<not> low_batt_protection s
            \<longrightarrow> in_batt16 i < 290)
       \<and> (in_batt16 i < 290 \<longrightarrow>
            low_batt_protection (app_event_handler c i s) \<and>
            g_task_wakeup_timer (status_block c i s) =
              tmr_reset (tmr_setPeriod 3600000 (g_task_wakeup_timer s)))
       \<and> (low_batt_protection s \<and> 290 \<le> in_batt16 i \<and> in_batt16 i \<le> 410 \<longrightarrow>
            low_batt_protection (app_event_handler c i s) \<and>
            g_task_wakeup_timer (status_block c i s) = g_task_wakeup_timer s)
       \<and> (low_batt_protection s \<and> \<not> low_batt_protection (app_event_handler c i s)
            \<longrightarrow> in_batt16 i > 410)
       \<and> (low_batt_protection s \<and> in_batt16 i > 410 \<longrightarrow>
            \<not> low_batt_protection (app_event_handler c i s) \<and>
            g_task_wakeup_timer (status_block c i s) =
              tmr_reset (tmr_setPeriod (send_repeat_time s) (g_task_wakeup_timer s)))
       \<and> (low_batt_protection s \<and> (\<forall>j \<in> set js. 290 \<le> in_batt16 j \<and> in_batt16 j \<le> 410)
            \<longrightarrow> low_batt_protection (timer_events c js s))"
proof -
  note p = handler_prot_pending [OF assms, of i]
  have t: "g_task_wakeup_timer (status_block c i s) =
     (if in_batt16 i < 290
      then tmr_reset (tmr_setPeriod 3600000 (g_task_wakeup_timer s))
      else if in_batt16 i > 410 \<and> low_batt_protection s
      then tmr_reset (tmr_setPeriod (send_repeat_time s) (g_task_wakeup_timer s))
      else g_task_wakeup_timer s)"
    using assms by (simp add: status_block_def status_body_guard)
  have a: "in_batt16 i < 290 \<Longrightarrow> \<not> in_batt16 i > 410"
    by (simp add: word_less_def word_le_def not_less)
  show ?thesis
    unfolding p t using a sticky_run [of s js c]
    by (auto simp: not_less not_le)
qed

text \<open>
  C2 on the readings 280, 300 and 450: from the start-up state the reading 280 starts
  the protection with a period of one hour; in the protected state 300 keeps it, also
  when it comes twice in a row, and 450 ends it with the period back at one minute.
\<close>

theorem battery_hysteresis_witness:
  "low_batt_protection (app_event_handler wisblock_consts (quiet_inputs\<lparr>in_batt16 := 280\<rparr>)
      (boot_state\<lparr>g_task_event_type := 1\<rparr>))
   \<and> tmr_period (g_task_wakeup_timer (status_block wisblock_consts
        (quiet_inputs\<lparr>in_batt16 := 280\<rparr>) (boot_state\<lparr>g_task_event_type := 1\<rparr>))) = 3600000
   \<and> low_batt_protection (app_event_handler wisblock_consts (quiet_inputs\<lparr>in_batt16 := 300\<rparr>)
        (boot_state\<lparr>g_task_event_type := 1, low_batt_protection := True\<rparr>))
   \<and> low_batt_protection (timer_events wisblock_consts
        [quiet_inputs\<lparr>in_batt16 := 300\<rparr>, quiet_inputs\<lparr>in_batt16 := 300\<rparr>]
        (boot_state\<lparr>g_task_event_type := 1, low_batt_protection := True\<rparr>))
   \<and> \<not> low_batt_protection (app_event_handler wisblock_consts
        (quiet_inputs\<lparr>in_batt16 := 450\<rparr>)
        (boot_state\<lparr>g_task_event_type := 1, low_batt_protection := True\<rparr>))
   \<and> tmr_period (g_task_wakeup_timer (status_block wisblock_consts
        (quiet_inputs\<lparr>in_batt16 := 450\<rparr>)
        (boot_state\<lparr>g_task_event_type := 1, low_batt_protection := True\<rparr>))) = 60000"
proof -
  let ?s = "boot_state\<lparr>g_task_event_type := 1\<rparr>"
  let ?p = "boot_state\<lparr>g_task_event_type := 1, low_batt_protection := True\<rparr>"
  have f: "g_task_event_type ?s AND STATUS wisblock_consts = STATUS wisblock_consts"
    "g_task_event_type ?p AND STATUS wisblock_consts = STATUS wisblock_consts"
    by (simp_all add: wisblock_consts_def)
  have r: "send_repeat_time ?p = 60000" by (simp add: boot_state_def)
  show ?thesis
    using battery_hysteresis [OF f(1), of "quiet_inputs\<lparr>in_batt16 := 280\<rparr>" "[]"]
      battery_hysteresis [OF f(2), of "quiet_inputs\<lparr>in_batt16 := 300\<rparr>"
        "[quiet_inputs\<lparr>in_batt16 := 300\<rparr>, quiet_inputs\<lparr>in_batt16 := 300\<rparr>]"]
      battery_hysteresis [OF f(2), of "quiet_inputs\<lparr>in_batt16 := 450\<rparr>" "[]"] r
    by (simp add: tmr_reset_def tmr_setPeriod_def)
qed

section \<open>The motion trigger and the minimum delay\<close>

text \<open>
  The decision of a motion trigger that is handled after join, with the minimum delay
  as \<open>init_app\<close> sets it (half of \<open>send_repeat_time\<close> if that is not 0, else 30000)
  and \<open>now\<close> the clock read at line 315: it is to send at once if and only if
  \<open>send_repeat_time\<close> is 0 or \<open>now - last_pos_send\<close> is at least the minimum delay;
  the handler raises the timer event and records the send time exactly on that decision;
  and when it defers with no deferred send pending, the period of the deferred timer is
  the wait time of line 323, cut to 32 bits.
\<close>

lemma motion_decision:
  assumes "consts_ok c" "g_task_event_type s AND ACC_TRIGGER c = ACC_TRIGGER c"
    "g_lpwan_has_joined s" "min_delay s = init_min_delay (send_repeat_time s)"
  shows "(acc_send_now s (in_acc_check i) \<longleftrightarrow>
            send_repeat_time s = 0 \<or>
            uint (in_acc_check i) - last_pos_send s \<ge>
              (if send_repeat_time s \<noteq> 0 then uint (send_repeat_time s) div 2 else 30000))
       \<and> (g_task_event_type (acc_block c i s) AND STATUS c = STATUS c \<longleftrightarrow>
            acc_send_now s (in_acc_check i) \<or> g_task_event_type s AND STATUS c = STATUS c)
       \<and> (last_pos_send (acc_block c i s) =
            (if acc_send_now s (in_acc_check i) then uint (in_acc_send i)
             else last_pos_send s))
       \<and> (\<not> acc_send_now s (in_acc_check i) \<and> \<not> delayed_active s \<longrightarrow>
            tmr_period (delayed_sending (acc_block c i s)) =
              word_of_int (acc_wait_time s (in_acc_cond i) (in_acc_wait i)))"
proof -
  have b: "acc_block c i s = acc_body c i s"
    using assms(2,3) by (simp add: acc_block_def)
  have d: "acc_send_now s (in_acc_check i) \<longleftrightarrow>
            send_repeat_time s = 0 \<or>
            uint (in_acc_check i) - last_pos_send s \<ge>
              (if send_repeat_time s \<noteq> 0 then uint (send_repeat_time s) div 2 else 30000)"
    using assms(4) by (auto simp: acc_send_now_def init_min_delay_def uint_half)
  have m: "ACC_TRIGGER c AND STATUS c = 0" "N_ACC_TRIGGER c = NOT (ACC_TRIGGER c)"
    using assms(1) by (simp_all add: consts_ok_def)
  have f: "g_task_event_type (acc_block c i s) AND STATUS c = STATUS c \<longleftrightarrow>
            acc_send_now s (in_acc_check i) \<or> g_task_event_type s AND STATUS c = STATUS c"
    unfolding b acc_body_fields m(2)
    by (simp add: or_and_self clear_other_flag [OF m(1)])
  have p: "\<not> acc_send_now s (in_acc_check i) \<and> \<not> delayed_active s \<longrightarrow>
            tmr_period (delayed_sending (acc_block c i s)) =
              word_of_int (acc_wait_time s (in_acc_cond i) (in_acc_wait i))"
    unfolding b acc_body_fields
    by (simp add: tmr_start_def tmr_setPeriod_def tmr_stop_def)
  show ?thesis using d f p by (simp add: b acc_body_fields(1))
qed

text \<open>
  The sign of the wait time of line 323. Its condition and its value read the clock one
  after the other. The wait time is negative exactly when the first of the two reads is
  not beyond the minimum delay and the second one is: the check \<open>>= 0\<close> is made on a
  value that is not the one assigned.
\<close>

lemma wait_time_sign:
  assumes "0 \<le> min_delay s"
  shows "acc_wait_time s t_cond t_val < 0 \<longleftrightarrow>
           uint t_cond - last_pos_send s \<le> min_delay s \<and>
           min_delay s < uint t_val - last_pos_send s"
  using assms by (auto simp: acc_wait_time_def)

lemma wait_time_one_read:
  assumes "0 \<le> min_delay s" "\<not> acc_send_now s t"
  shows "0 < acc_wait_time s t t"
  using assms by (auto simp: acc_wait_time_def acc_send_now_def split: if_splits)

text \<open>
  C3: the decision is as the claim says (\<open>motion_decision\<close>), but the wait time is not
  always at least 0. With a send interval of 60000 ms, the last send at 0 and a motion
  trigger whose three clock reads return 29999 (line 315), 30000 and 30001 (the
  condition and the value of line 323), the decision is false, the check of line 323
  passes on 30000, the wait time is \<open>-1\<close>, and the deferred timer is armed with a
  period of 4294967295 ms and marked as pending.
\<close>

theorem motion_wait_negative:
  "\<not> acc_send_now motion_pending 29999
   \<and> acc_wait_time motion_pending 30000 30001 = - 1
   \<and> tmr_period (delayed_sending (acc_block wisblock_consts tick_inputs motion_pending))
       = 4294967295
   \<and> tmr_active (delayed_sending (acc_block wisblock_consts tick_inputs motion_pending))
   \<and> delayed_active (acc_block wisblock_consts tick_inputs motion_pending)"
proof -
  have v: "last_pos_send motion_pending = 0" "send_repeat_time motion_pending = 60000"
    "\<not> delayed_active motion_pending" "min_delay motion_pending = 30000"
    "g_lpwan_has_joined motion_pending" "g_task_event_type motion_pending = 0x8000"
    by (simp_all add: motion_pending_def boot_state_def)
  have i: "in_acc_check tick_inputs = 29999" "in_acc_cond tick_inputs = 30000"
    "in_acc_wait tick_inputs = 30001"
    by (simp_all add: tick_inputs_def)
  have n: "\<not> acc_send_now motion_pending 29999"
    by (simp add: acc_send_now_def v)
  have w: "acc_wait_time motion_pending 30000 30001 = - 1"
    by (simp add: acc_wait_time_def v)
  have b: "acc_block wisblock_consts tick_inputs motion_pending
             = acc_body wisblock_consts tick_inputs motion_pending"
    by (simp add: acc_block_def v wisblock_consts_def)
  have "(word_of_int (- 1) :: 32 word) = 4294967295" by simp
  then show ?thesis
    using n w unfolding b acc_body_fields i
    by (simp add: v tmr_start_def tmr_setPeriod_def tmr_stop_def)
qed

section \<open>The deferred send\<close>

lemma expire_once:
  assumes "\<not> tmr_repeating (delayed_sending s)" "tmr_active (delayed_sending s)"
  shows "g_task_event_type (delayed_expire c s) AND STATUS c = STATUS c"
    "trace (delayed_expire c s) = trace s @ [TaskSemGive]"
    "\<not> tmr_active (delayed_sending (delayed_expire c s))"
    "delayed_expire c (delayed_expire c s) = delayed_expire c s"
  using assms
  by (simp_all add: delayed_expire_def send_delayed_def emit_def or_and_self)

text \<open>
  C4: while a deferred send is pending (\<open>delayed_active\<close> is set), a motion trigger
  leaves the deferred timer as it is, with no operation invoked on it, and the flag set;
  so does the whole run of the event handler. The deferred timer is begun as a one-shot
  timer and no handler makes it reload. When the armed one-shot timer expires, its
  callback raises the timer event and wakes the task once, and the timer is then at
  rest: a further expiry without a new start changes nothing.
\<close>

theorem deferred_timer_idempotent:
  "(delayed_active s \<longrightarrow>
      delayed_sending (acc_block c i s) = delayed_sending s \<and>
      delayed_active (acc_block c i s) \<and>
      delayed_sending (app_event_handler c i s) = delayed_sending s)
   \<and> \<not> tmr_repeating (delayed_sending (init_app_delay s))
   \<and> tmr_repeating (delayed_sending (app_event_handler c i s)) =
       tmr_repeating (delayed_sending s)
   \<and> (\<not> tmr_repeating (delayed_sending s) \<and> tmr_active (delayed_sending s) \<longrightarrow>
       g_task_event_type (delayed_expire c s) AND STATUS c = STATUS c \<and>
       trace (delayed_expire c s) = trace s @ [TaskSemGive] \<and>
       \<not> tmr_active (delayed_sending (delayed_expire c s)) \<and>
       delayed_expire c (delayed_expire c s) = delayed_expire c s)"
proof -
  have h: "delayed_sending (app_event_handler c i s) =
             delayed_sending (acc_block c i (status_block c i s))"
    by (simp add: app_event_handler_def fin_block_same)
  have a: "delayed_active s \<longrightarrow> delayed_sending (app_event_handler c i s) = delayed_sending s"
    unfolding h by (simp add: acc_block_pending status_block_same)
  have r: "tmr_repeating (delayed_sending (app_event_handler c i s)) =
       tmr_repeating (delayed_sending s)"
    unfolding h by (simp add: acc_block_same status_block_same)
  have n: "\<not> tmr_repeating (delayed_sending (init_app_delay s))"
    by (simp add: init_app_delay_def tmr_begin_def Let_def)
  show ?thesis
    using a r n expire_once [of s c] by (simp add: acc_block_pending)
qed

text \<open>
  C4 after a first motion at 1000 has armed the timer for 29000 ms: a second motion at
  2000 leaves the timer as it is, and the expiry adds one wake-up to the trace and puts
  the timer at rest.
\<close>

theorem deferred_timer_idempotent_witness:
  "delayed_sending (app_event_handler wisblock_consts
      (quiet_inputs\<lparr>in_acc_check := 2000, in_acc_cond := 2000, in_acc_wait := 2000\<rparr>)
      (boot_state\<lparr>g_task_event_type := 0x8000, delayed_active := True,
         delayed_sending := tmr_start (tmr_setPeriod 29000 (tmr_stop (tmr_begin 30000 False)))\<rparr>))
     = tmr_start (tmr_setPeriod 29000 (tmr_stop (tmr_begin 30000 False)))
   \<and> trace (delayed_expire wisblock_consts
        (boot_state\<lparr>g_task_event_type := 0x8000, delayed_active := True,
           delayed_sending :=
             tmr_start (tmr_setPeriod 29000 (tmr_stop (tmr_begin 30000 False)))\<rparr>))
     = [TaskSemGive]
   \<and> \<not> tmr_active (delayed_sending (delayed_expire wisblock_consts
        (boot_state\<lparr>g_task_event_type := 0x8000, delayed_active := True,
           delayed_sending :=
             tmr_start (tmr_setPeriod 29000 (tmr_stop (tmr_begin 30000 False)))\<rparr>)))"
proof -
  let ?t = "tmr_start (tmr_setPeriod 29000 (tmr_stop (tmr_begin 30000 False)))"
  let ?s = "boot_state\<lparr>g_task_event_type := 0x8000, delayed_active := True,
    delayed_sending := ?t\<rparr>"
  have t: "\<not> tmr_repeating ?t" "tmr_active ?t"
    by (simp_all add: tmr_start_def tmr_setPeriod_def tmr_stop_def tmr_begin_def)
  have s: "delayed_active ?s" "delayed_sending ?s = ?t" "trace ?s = []"
    by (simp_all add: boot_state_def)
  show ?thesis
    using deferred_timer_idempotent [of ?s wisblock_consts
        "quiet_inputs\<lparr>in_acc_check := 2000, in_acc_cond := 2000, in_acc_wait := 2000\<rparr>"]
      t s(1)
    unfolding s(2,3) by simp
qed

section \<open>Failed transmissions and the restart\<close>

lemma tx_step:
  "tx_fin_block c ack (s\<lparr>g_task_event_type := g_task_event_type s OR LORA_TX_FIN c\<rparr>) =
     (if ack then
        Continue (emit (AT_PRINTF (if confirmed_msg_enabled s \<and> lorawan_enable s
                            then ''+EVT:SEND CONFIRMED SUCCESS'' else ''+EVT:SEND OK''))
          (s\<lparr>g_task_event_type :=
               (g_task_event_type s OR LORA_TX_FIN c) AND N_LORA_TX_FIN c\<rparr>))
      else if send_fail s + 1 = 10 then SystemReset
      else
        Continue ((emit (AT_PRINTF (if confirmed_msg_enabled s \<and> lorawan_enable s
                            then ''+EVT:SEND CONFIRMED FAIL'' else ''+EVT:SEND OK''))
          (s\<lparr>g_task_event_type :=
               (g_task_event_type s OR LORA_TX_FIN c) AND N_LORA_TX_FIN c\<rparr>))
            \<lparr>send_fail := send_fail s + 1\<rparr>))"
  by (simp add: tx_fin_block_def tx_fin_body_def or_and_self emit_def Let_def)

lemma tx_events_shift:
  "tx_events c acks s j = map_option (\<lambda>k. k + j) (tx_events c acks s 0)"
proof (induction acks arbitrary: s j)
  case Nil
  then show ?case by simp
next
  case (Cons ack acks)
  show ?case
    using Cons.IH [of _ "Suc j"] Cons.IH [of _ "Suc 0"]
    by (simp add: option.map_comp comp_def split: run.splits)
qed

lemma failure_counted:
  "m < length xs \<Longrightarrow> \<not> xs ! m \<Longrightarrow> 0 < length (filter Not (take (Suc m) xs))"
  by (simp add: take_Suc_conv_app_nth)

lemma tx_events_count:
  assumes "unat (send_fail s) = n" "n < 10"
  shows "tx_events c acks s 0 = Some k \<longleftrightarrow>
           k < length acks \<and> \<not> acks ! k \<and> n + length (filter Not (take (Suc k) acks)) = 10"
  using assms
proof (induction acks arbitrary: s n k)
  case Nil
  then show ?case by simp
next
  case (Cons ack acks)
  let ?e = "s\<lparr>g_task_event_type := g_task_event_type s OR LORA_TX_FIN c\<rparr>"
  show ?case
  proof (cases ack)
    case True
    then obtain s' where s': "tx_fin_block c ack ?e = Continue s'" "send_fail s' = send_fail s"
      by (simp add: tx_step emit_def)
    have "tx_events c (ack # acks) s 0 = map_option Suc (tx_events c acks s' 0)"
      using s'(1) tx_events_shift [of c acks s' "Suc 0"] by simp
    moreover have "unat (send_fail s') = n" using s'(2) Cons.prems(1) by simp
    note Cons.IH [OF this Cons.prems(2)]
    ultimately show ?thesis
      using True by (cases k) auto
  next
    case False
    show ?thesis
    proof (cases "n = 9")
      case nine: True
      then have "send_fail s = 9"
        using Cons.prems(1) by (simp add: word_unat_eq_iff)
      then have r: "tx_events c (ack # acks) s 0 = Some 0"
        using False by (simp add: tx_step)
      show ?thesis
      proof (cases k)
        case 0
        then show ?thesis using r False nine by simp
      next
        case (Suc m)
        have "\<not> (m < length acks \<and> \<not> acks ! m \<and>
                 n + length (filter Not (take (Suc (Suc m)) (ack # acks))) = 10)"
          using failure_counted [of m acks] False nine by auto
        then show ?thesis using r Suc by simp
      qed
    next
      case less: False
      then have n8: "n < 9" using Cons.prems(2) by simp
      have u: "unat (send_fail s + 1) = Suc n"
        using Cons.prems(1) n8 by (simp add: unat_word_ariths)
      then have "send_fail s + 1 \<noteq> 10" using n8 by auto
      then obtain s' where s': "tx_fin_block c ack ?e = Continue s'"
        "send_fail s' = send_fail s + 1"
        using False by (simp add: tx_step emit_def)
      have e: "tx_events c (ack # acks) s 0 = map_option Suc (tx_events c acks s' 0)"
        using s'(1) tx_events_shift [of c acks s' "Suc 0"] by simp
      have "unat (send_fail s') = Suc n" using s'(2) u by simp
      moreover have "Suc n < 10" using n8 by simp
      ultimately have ih: "\<And>k. tx_events c acks s' 0 = Some k \<longleftrightarrow>
           k < length acks \<and> \<not> acks ! k \<and>
           Suc n + length (filter Not (take (Suc k) acks)) = 10"
        by (rule Cons.IH)
      show ?thesis
      proof (cases k)
        case 0
        then show ?thesis using e False n8 by auto
      next
        case (Suc m)
        then show ?thesis using e ih [of m] False by auto
      qed
    qed
  qed
qed

text \<open>
  C5, as it is stated, does not hold: the counter is not one of failures in a row. After
  nine failed transmissions, one acknowledged and one more failed, the device restarts
  at the eleventh event, where one failure in a row ends the sequence.
\<close>

theorem consecutive_failures_counterexample:
  "tx_events wisblock_consts (replicate 9 False @ [True, False]) boot_state 0 = Some 10
   \<and> trailing_failures (take 11 (replicate 9 False @ [True, False])) = 1"
  by code_simp

text \<open>
  C5, amended: from start-up (counter 0), a sequence of ended transmissions restarts
  the device at event \<open>k\<close> if and only if event \<open>k\<close> is a failed one and is the tenth
  failed one of the sequence, acknowledged ones in between or not; it does not restart
  before.
\<close>

theorem restart_at_tenth_failure:
  assumes "send_fail s = 0"
  shows "tx_events c acks s 0 = Some k \<longleftrightarrow>
           k < length acks \<and> \<not> acks ! k \<and> length (filter Not (take (Suc k) acks)) = 10"
  using tx_events_count [of s 0 c acks k] assms by simp

text \<open>C5, amended, on ten failures in a row: the restart comes at the tenth.\<close>

theorem restart_at_tenth_failure_witness:
  "tx_events wisblock_consts (replicate 10 False) boot_state 0 = Some 9"
  using restart_at_tenth_failure [of boot_state wisblock_consts "replicate 10 False" 9]
  by (simp add: boot_state_def eval_nat_numeral)

section \<open>The submission over LoRaWAN\<close>

lemma send_lorawan_trace:
  "trace (send_lorawan r s) = trace s @
     (case r 0 of
        LMH_SUCCESS \<Rightarrow> [SendLora (frame s)]
      | LMH_BUSY \<Rightarrow> [SendLora (frame s), AT_PRINTF ''+EVT:BUSY'']
      | LMH_ERROR \<Rightarrow>
          (case r 1 of
             LMH_SUCCESS \<Rightarrow> [SendLora (frame s), SendLora (frame s)]
           | LMH_BUSY \<Rightarrow> [SendLora (frame s), SendLora (frame s), AT_PRINTF ''+EVT:BUSY'']
           | LMH_ERROR \<Rightarrow> [SendLora (frame s), SendLora (frame s),
                AT_PRINTF ''+EVT:SIZE_ERROR RETRY'', SendLora (frame s),
                AT_PRINTF ''+EVT:SIZE_ERROR'']))"
  by (simp add: send_lorawan_def Let_def emit_def frame_def split: lmh_error_status.splits)

text \<open>
  C6, as it is stated, does not hold: a busy radio is not tried again. When the first
  submission returns busy, the handler reports \<open>+EVT:BUSY\<close> and has made one attempt.
\<close>

theorem busy_not_retried_counterexample:
  "new_trace boot_state (send_lorawan always_busy boot_state)
     = [SendLora [], AT_PRINTF ''+EVT:BUSY'']
   \<and> attempts (new_trace boot_state (send_lorawan always_busy boot_state)) = 1"
  by (simp add: new_trace_def attempts_def send_lorawan_trace frame_def boot_state_def
      always_busy_def)

text \<open>
  C6, amended: in the LoRaWAN send path of the fix-completed handler a submission that
  returns an error is repeated at once; at most 3 submissions are made for one frame,
  and 3 exactly when the first two return an error; after the third submission
  \<open>+EVT:SIZE_ERROR\<close> is written whatever the third one returns; a submission that
  returns busy is reported as \<open>+EVT:BUSY\<close> and is not repeated.
\<close>

theorem lorawan_retry_policy:
  "attempts (new_trace s (send_lorawan r s)) \<le> 3
   \<and> (attempts (new_trace s (send_lorawan r s)) = 3 \<longleftrightarrow> r 0 = LMH_ERROR \<and> r 1 = LMH_ERROR)
   \<and> (r 0 = LMH_ERROR \<and> r 1 = LMH_ERROR \<longrightarrow>
        new_trace s (send_lorawan r s) =
          [SendLora (frame s), SendLora (frame s), AT_PRINTF ''+EVT:SIZE_ERROR RETRY'',
           SendLora (frame s), AT_PRINTF ''+EVT:SIZE_ERROR''])
   \<and> (r 0 = LMH_BUSY \<longrightarrow>
        new_trace s (send_lorawan r s) = [SendLora (frame s), AT_PRINTF ''+EVT:BUSY''])
   \<and> (r 0 = LMH_ERROR \<and> r 1 = LMH_BUSY \<longrightarrow>
        new_trace s (send_lorawan r s) =
          [SendLora (frame s), SendLora (frame s), AT_PRINTF ''+EVT:BUSY''])"
  by (simp add: new_trace_def attempts_def send_lorawan_trace split: lmh_error_status.splits)

text \<open>
  C6, amended, on two runs: two errors and then a success, which still ends in
  \<open>+EVT:SIZE_ERROR\<close>, and a busy radio at the first submission.
\<close>

theorem lorawan_retry_policy_witness:
  "new_trace boot_state (send_lorawan error_twice boot_state)
     = [SendLora [], SendLora [], AT_PRINTF ''+EVT:SIZE_ERROR RETRY'',
           SendLora [], AT_PRINTF ''+EVT:SIZE_ERROR'']
   \<and> new_trace boot_state (send_lorawan always_busy boot_state)
     = [SendLora [], AT_PRINTF ''+EVT:BUSY'']"
  using lorawan_retry_policy [of boot_state error_twice]
    lorawan_retry_policy [of boot_state always_busy]
  by (simp add: frame_def boot_state_def always_busy_def)

section \<open>The time limit of the location search\<close>

text \<open>
  C7, as it is stated, does not hold: with a send interval of 120 s, which is not 0 and
  at most 180 s, the limit is 90 s and not the smaller of 60 s and 90 s.
\<close>

theorem check_limit_counterexample:
  "(120000 :: 32 word) \<noteq> 0 \<and> (120000 :: 32 word) \<le> 180000 \<and>
   check_limit 120000 = 90000 \<and>
   check_limit 120000 \<noteq> min (uint (120000 :: 32 word) div 2) 90000"
  by (simp add: check_limit_def)

text \<open>
  C7, amended: the limit is the smaller of half the send interval and 90 s whenever the
  send interval is not 0 and at most 90 s, and it is 90 s otherwise (send interval 0 or
  above 90 s).
\<close>

theorem check_limit_amended:
  "check_limit rt =
     (if rt \<noteq> 0 \<and> rt \<le> 90000 then min (uint rt div 2) 90000 else 90000)"
proof (cases "rt \<noteq> 0 \<and> rt \<le> 90000")
  case True
  then have "uint rt \<le> 90000" by (simp add: word_le_def)
  then have "uint rt div 2 \<le> 90000" by linarith
  with True show ?thesis by (simp add: check_limit_def uint_half)
next
  case False
  then show ?thesis by (auto simp: check_limit_def)
qed

text \<open>C7, amended, at send intervals of 60 s, 120 s and 0.\<close>

theorem check_limit_amended_witness:
  "check_limit 60000 = 30000 \<and> check_limit 120000 = 90000 \<and> check_limit 0 = 90000"
  using check_limit_amended [of 60000] check_limit_amended [of 120000]
    check_limit_amended [of 0]
  by simp

section \<open>A location of latitude and longitude zero\<close>

lemma poll_zero:
  assumes "acq_latitude a = 0" "acq_longitude a = 0"
  shows "poll_gnss_end a s =
     (if acq_ok a then s\<lparr>last_read_ok := False\<rparr>
      else s\<lparr>last_read_ok := False, g_tracker_data_s := zero_short,
             g_tracker_data_l := zero_prec\<rparr>, False)"
  using assms by (simp add: poll_gnss_end_def Let_def)

text \<open>
  C8: a search that ends with latitude and longitude both zero counts as failed,
  whatever the driver said (\<open>acq_ok\<close>): \<open>poll_gnss\<close> returns false and leaves
  \<open>last_read_ok\<close> false, and the frame that the handler then builds is the one of a
  search without a location: the environment record with a sensor, its first four
  bytes without.
\<close>

theorem zero_fix_invalid:
  assumes "acq_latitude a = 0" "acq_longitude a = 0" "consts_ok c"
    "length (in_read_bme i (g_env_data s)) = ENVIRONMENT_DATA_LEN c"
  shows "snd (poll_gnss_end a s) = False
       \<and> last_read_ok (fst (poll_gnss_end a s)) = False
       \<and> frame (fin_block c i (gnss_task_step c a s)) =
           (if has_env_sensor s then in_read_bme i (g_env_data s)
            else take 4 (in_read_bme i (g_env_data s)))"
proof -
  let ?t = "gnss_task_step c a s"
  have p: "snd (poll_gnss_end a s) = False" "last_read_ok (fst (poll_gnss_end a s)) = False"
    by (simp_all add: poll_zero [OF assms(1,2)])
  have t: "\<not> last_read_ok ?t" "g_env_data ?t = g_env_data s"
    "has_env_sensor ?t = has_env_sensor s"
    "g_task_event_type ?t AND GNSS_FIN c = GNSS_FIN c"
    by (simp_all add: gnss_task_step_def poll_zero [OF assms(1,2)] emit_def or_and_self
        Let_def)
  have "fin_block c i ?t = fin_body c i ?t"
    using t(4) by (simp add: fin_block_def)
  moreover have "length (in_read_bme i (g_env_data ?t)) = ENVIRONMENT_DATA_LEN c"
    using assms(4) t(2) by simp
  from fin_body_no_fix [OF assms(3) this t(1)]
  have "frame (fin_body c i ?t) =
           (if has_env_sensor s then in_read_bme i (g_env_data s)
            else take 4 (in_read_bme i (g_env_data s)))"
    using t(2,3) by simp
  ultimately show ?thesis using p by simp
qed

text \<open>
  C8 on a search that the driver reports as good, with latitude and longitude zero and
  an altitude of 35 m: the frame is the four bytes of the battery block.
\<close>

theorem zero_fix_invalid_witness:
  "frame (fin_block wisblock_consts quiet_inputs
      (gnss_task_step wisblock_consts zero_acquisition boot_state))
   = [0, 0, 0, 0]"
  using zero_fix_invalid [of zero_acquisition wisblock_consts quiet_inputs boot_state]
    wisblock_consts_ok
  by (simp add: zero_acquisition_def boot_state_def quiet_inputs_def wisblock_consts_def
      rep4)

section \<open>The check of region and data rate\<close>

text \<open>
  C9: at the end of a search in LoRaWAN mode with region 8 and data rate 0, the region
  and the rate that the handler checks, the handler reads the environment sensor, writes
  \<open>+EVT:DR_ERROR\<close> and returns: nothing is handed to the radio.
\<close>

theorem dr_error_rejected:
  assumes "lorawan_enable s" "lora_region s = 8" "data_rate s = 0"
    "g_task_event_type s AND GNSS_FIN c = GNSS_FIN c"
  shows "trace (fin_block c i s) = trace s @ [ReadBme, AT_PRINTF ''+EVT:DR_ERROR'']"
  using assms
  by (simp add: fin_block_def fin_body_def fin_send_def build_packet_def Let_def emit_def)

text \<open>C9 in the start-up state with region 8, data rate 0 and the end of a search pending.\<close>

theorem dr_error_rejected_witness:
  "trace (fin_block wisblock_consts quiet_inputs
            (boot_state\<lparr>lora_region := 8, data_rate := 0, g_task_event_type := 0x4000\<rparr>))
   = [ReadBme, AT_PRINTF ''+EVT:DR_ERROR'']"
  using dr_error_rejected [of "boot_state\<lparr>lora_region := 8, data_rate := 0,
      g_task_event_type := 0x4000\<rparr>" wisblock_consts quiet_inputs]
  by (simp add: boot_state_def wisblock_consts_def)

section \<open>A motion trigger before join\<close>

text \<open>
  C10: when the flag of the motion trigger is set and the network has not joined, the
  run of the event handler does nothing for the motion: its block leaves the state as
  the timer block left it, the run is that of the timer block and the block of the
  search end alone, and the flag of the motion trigger is still set afterwards.
\<close>

theorem motion_before_join:
  assumes "consts_ok c" "g_task_event_type s AND ACC_TRIGGER c = ACC_TRIGGER c"
    "\<not> g_lpwan_has_joined s"
  shows "acc_block c i (status_block c i s) = status_block c i s
       \<and> app_event_handler c i s = fin_block c i (status_block c i s)
       \<and> g_task_event_type (app_event_handler c i s) AND ACC_TRIGGER c = ACC_TRIGGER c"
proof -
  have m: "N_STATUS c = NOT (STATUS c)" "N_GNSS_FIN c = NOT (GNSS_FIN c)"
    "ACC_TRIGGER c AND STATUS c = 0" "ACC_TRIGGER c AND GNSS_FIN c = 0"
    using assms(1) by (simp_all add: consts_ok_def)
  have a: "acc_block c i (status_block c i s) = status_block c i s"
    using assms(3) by (simp add: acc_block_def status_block_same)
  then have h: "app_event_handler c i s = fin_block c i (status_block c i s)"
    by (simp add: app_event_handler_def)
  have 1: "g_task_event_type (status_block c i s) AND ACC_TRIGGER c = ACC_TRIGGER c"
    using assms(2) keep_other_flag [OF m(3) assms(2)]
    by (simp add: status_block_flags m(1))
  have "g_task_event_type (fin_block c i (status_block c i s)) AND ACC_TRIGGER c
          = ACC_TRIGGER c"
    using 1 keep_other_flag [OF m(4) 1]
    by (simp add: fin_block_flags m(2))
  with a h show ?thesis by simp
qed

text \<open>
  C10 in the start-up state before join with only the motion flag set: the run of the
  handler leaves the whole state as it is.
\<close>

theorem motion_before_join_witness:
  "app_event_handler wisblock_consts quiet_inputs
     (boot_state\<lparr>g_lpwan_has_joined := False, g_task_event_type := 0x8000\<rparr>)
   = boot_state\<lparr>g_lpwan_has_joined := False, g_task_event_type := 0x8000\<rparr>"
proof -
  let ?s = "boot_state\<lparr>g_lpwan_has_joined := False, g_task_event_type := 0x8000\<rparr>"
  have f: "g_task_event_type ?s AND ACC_TRIGGER wisblock_consts = ACC_TRIGGER wisblock_consts"
    by (simp add: wisblock_consts_def)
  have j: "\<not> g_lpwan_has_joined ?s" by simp
  from motion_before_join [OF wisblock_consts_ok f j, of quiet_inputs]
  show ?thesis
    by (simp add: fin_block_def status_block_def wisblock_consts_def boot_state_def)
qed


end
